theory Spec2Isabelle
  imports Complex_Main "HOL-Library.Log_Nat"
begin

section \<open>Double-precision numbers\<close>

text \<open>
  The numbers of the placement are JavaScript numbers: a finite double (held as the
  rational it denotes), an infinity, or \<open>NaN\<close>. The sign of zero is not kept.
\<close>

datatype jsfloat = Fin rat | PosInf | NegInf | NotANumber

text \<open>\<open>floor_log2 a\<close> is the integer \<open>k\<close> with \<open>2 ^ k \<le> a < 2 ^ (k + 1)\<close>, for a positive \<open>a\<close>.\<close>

definition floor_log2 :: "rat \<Rightarrow> int" where
  "floor_log2 a =
     (if 1 \<le> a then bitlen \<lfloor>a\<rfloor> - 1 else - bitlen (\<lceil>1 / a\<rceil> - 1))"

definition pow2 :: "int \<Rightarrow> rat" where
  "pow2 e = (if 0 \<le> e then 2 ^ nat e else 1 / 2 ^ nat (- e))"

definition round_half_even :: "rat \<Rightarrow> int" where
  "round_half_even y =
     (let f = \<lfloor>y\<rfloor>; d = y - of_int f in
      if d < 1 / 2 then f else if 1 / 2 < d then f + 1 else if even f then f else f + 1)"

text \<open>
  The double nearest to a rational, a tie going to the even significand: 53 bits of
  significand, the least exponent \<open>-1074\<close>, and an infinity from \<open>2 ^ 1024\<close> on. Every
  arithmetic operation of the source returns its exact result rounded so.
\<close>

definition round_double :: "rat \<Rightarrow> jsfloat" where
  "round_double x =
     (if x = 0 then Fin 0
      else
        (let a = \<bar>x\<bar>;
             e = max (floor_log2 a - 52) (- 1074);
             m = round_half_even (a / pow2 e)
         in if 1025 \<le> e + bitlen m then (if 0 < x then PosInf else NegInf)
            else Fin (if 0 < x then of_int m * pow2 e else - (of_int m * pow2 e))))"

text \<open>The operators \<open>+\<close>, \<open>-\<close>, \<open><\<close> and \<open><=\<close> of the language on these numbers.\<close>

instantiation jsfloat :: "{plus, minus, ord}"
begin

definition plus_jsfloat :: "jsfloat \<Rightarrow> jsfloat \<Rightarrow> jsfloat" where
  "plus_jsfloat a b =
     (case a of
        Fin x \<Rightarrow> (case b of Fin y \<Rightarrow> round_double (x + y) | _ \<Rightarrow> b)
      | PosInf \<Rightarrow>
          (case b of NegInf \<Rightarrow> NotANumber | NotANumber \<Rightarrow> NotANumber | _ \<Rightarrow> PosInf)
      | NegInf \<Rightarrow>
          (case b of PosInf \<Rightarrow> NotANumber | NotANumber \<Rightarrow> NotANumber | _ \<Rightarrow> NegInf)
      | NotANumber \<Rightarrow> NotANumber)"

definition minus_jsfloat :: "jsfloat \<Rightarrow> jsfloat \<Rightarrow> jsfloat" where
  "minus_jsfloat a b =
     (case a of
        Fin x \<Rightarrow>
          (case b of
             Fin y \<Rightarrow> round_double (x - y)
           | PosInf \<Rightarrow> NegInf
           | NegInf \<Rightarrow> PosInf
           | NotANumber \<Rightarrow> NotANumber)
      | PosInf \<Rightarrow>
          (case b of PosInf \<Rightarrow> NotANumber | NotANumber \<Rightarrow> NotANumber | _ \<Rightarrow> PosInf)
      | NegInf \<Rightarrow>
          (case b of NegInf \<Rightarrow> NotANumber | NotANumber \<Rightarrow> NotANumber | _ \<Rightarrow> NegInf)
      | NotANumber \<Rightarrow> NotANumber)"

definition less_jsfloat :: "jsfloat \<Rightarrow> jsfloat \<Rightarrow> bool" where
  "less_jsfloat a b =
     (case a of
        Fin x \<Rightarrow> (case b of Fin y \<Rightarrow> x < y | PosInf \<Rightarrow> True | _ \<Rightarrow> False)
      | NegInf \<Rightarrow> (case b of Fin y \<Rightarrow> True | PosInf \<Rightarrow> True | _ \<Rightarrow> False)
      | _ \<Rightarrow> False)"

definition less_eq_jsfloat :: "jsfloat \<Rightarrow> jsfloat \<Rightarrow> bool" where
  "less_eq_jsfloat a b = (a \<noteq> NotANumber \<and> b \<noteq> NotANumber \<and> (a < b \<or> a = b))"

instance ..

end

text \<open>\<open>Math.max\<close> of two numbers: \<open>NaN\<close> when either is.\<close>

definition Math_max :: "jsfloat \<Rightarrow> jsfloat \<Rightarrow> jsfloat" where
  "Math_max a b =
     (if a = NotANumber \<or> b = NotANumber then NotANumber else if a < b then b else a)"

text \<open>
  \<open>Math.round\<close>: the nearest integer, a half rounded towards plus infinity; the
  infinities and \<open>NaN\<close> are returned as they are.
\<close>

definition Math_round :: "jsfloat \<Rightarrow> jsfloat" where
  "Math_round a = (case a of Fin x \<Rightarrow> Fin (of_int \<lfloor>x + 1 / 2\<rfloor>) | _ \<Rightarrow> a)"

text \<open>The double that a decimal literal of the source denotes.\<close>

definition dbl :: "rat \<Rightarrow> rat" where
  "dbl x = (case round_double x of Fin r \<Rightarrow> r | _ \<Rightarrow> 0)"

section \<open>Placement of the menu: useDropdownPosition\<close>

text \<open>
  The hook measures the trigger button and the menu with \<open>getBoundingClientRect\<close> and
  reads the viewport size from the window: finite doubles, often with a fraction. A field
  holds the rational that the double denotes.
\<close>

record rect =
  rect_left :: rat
  rect_top :: rat
  rect_bottom :: rat
  rect_width :: rat
  rect_height :: rat

record viewport =
  vp_width :: rat
  vp_height :: rat

text \<open>The position name kept by the hook: \<open>'bottom'\<close> (below the button) or \<open>'top'\<close>.\<close>

datatype position = PosBottom | PosTop

text \<open>
  The style object: \<open>{visibility: 'hidden'}\<close>, or the fixed, visible style with its
  \<open>top\<close>, \<open>left\<close> and \<open>minWidth\<close> (\<open>position: 'fixed'\<close> and \<open>zIndex: 1000\<close> are constants).
\<close>

datatype style = Hidden | Fixed (style_top: jsfloat) (style_left: jsfloat) (style_minWidth: jsfloat)

record pos_state =
  style_of :: style
  position_of :: position

text \<open>
  The local variables \<open>top\<close> and \<open>pos\<close> of \<open>updatePosition\<close>: below the button,
  unless the menu would overflow the bottom of the viewport and there is room above.
\<close>

definition overflowsBottom :: "rect \<Rightarrow> rect \<Rightarrow> viewport \<Rightarrow> bool" where
  "overflowsBottom buttonRect menuRect vp =
     (Fin (rect_bottom buttonRect) + Fin (rect_height menuRect) > Fin (vp_height vp)
      \<and> Fin (rect_top buttonRect) > Fin (rect_height menuRect) + Fin 8)"

definition placementTop :: "rect \<Rightarrow> rect \<Rightarrow> viewport \<Rightarrow> jsfloat" where
  "placementTop buttonRect menuRect vp =
     (if overflowsBottom buttonRect menuRect vp
      then Fin (rect_top buttonRect) - Fin (rect_height menuRect)
      else Fin (rect_bottom buttonRect))"

definition placementPos :: "rect \<Rightarrow> rect \<Rightarrow> viewport \<Rightarrow> position" where
  "placementPos buttonRect menuRect vp =
     (if overflowsBottom buttonRect menuRect vp then PosTop else PosBottom)"

text \<open>The local variable \<open>adjustedLeft\<close>: the button's left edge, moved when the menu is too wide.\<close>

definition adjustedLeft :: "rect \<Rightarrow> rect \<Rightarrow> viewport \<Rightarrow> jsfloat" where
  "adjustedLeft buttonRect menuRect vp =
     (let left = Fin (rect_left buttonRect) in
      if left + Fin (rect_width menuRect) > Fin (vp_width vp)
      then Math_max (Fin 8) (Fin (vp_width vp) - Fin (rect_width menuRect) - Fin 8)
      else left)"

text \<open>
  \<open>updatePosition\<close>: nothing happens while the button or the menu is not mounted (the
  refs are empty); otherwise the style and the position name are stored.
\<close>

definition updatePosition :: "rect option \<Rightarrow> rect option \<Rightarrow> viewport \<Rightarrow> pos_state \<Rightarrow> pos_state" where
  "updatePosition button menu vp st =
     (case button of
        None \<Rightarrow> st
      | Some buttonRect \<Rightarrow>
          (case menu of
             None \<Rightarrow> st
           | Some menuRect \<Rightarrow>
               \<lparr>style_of = Fixed (Math_round (placementTop buttonRect menuRect vp))
                                 (Math_round (adjustedLeft buttonRect menuRect vp))
                                 (Math_max (Fin (rect_width buttonRect)) (Fin 160)),
                position_of = placementPos buttonRect menuRect vp\<rparr>))"

text \<open>
  The effect of the hook, run when \<open>open\<close> changes: a closed menu is hidden (the position
  name is kept), an open one is placed at once. While the menu is open the same
  \<open>updatePosition\<close> runs again on every scroll and resize.
\<close>

definition positionEffect :: "bool \<Rightarrow> rect option \<Rightarrow> rect option \<Rightarrow> viewport \<Rightarrow> pos_state \<Rightarrow> pos_state" where
  "positionEffect is_open button menu vp st =
     (if \<not> is_open then st\<lparr>style_of := Hidden\<rparr> else updatePosition button menu vp st)"

definition initialPosition :: pos_state where
  "initialPosition = \<lparr>style_of = Hidden, position_of = PosBottom\<rparr>"

section \<open>The Dropdown component\<close>

subsection \<open>Values, options, props and state\<close>

text \<open>
  Option values are primitives ("Assume primitives", as the source says): strings,
  booleans, and numbers that are integers which a double holds exactly and prints in full
  (of magnitude below \<open>2 ^ 53\<close>). On these, strict equality is equality.
\<close>

datatype prim = PStr string | PNum int | PBool bool

text \<open>
  A selected value is absent (\<open>null\<close> or \<open>undefined\<close>, which the component never tells
  apart: it only tests \<open>!= null\<close> and \<open>??\<close>), one primitive, or an array of primitives.
\<close>

datatype jsval = Nullish | Prim prim | Arr "prim list"

record item =
  item_label :: string
  item_value :: prim

text \<open>
  What the state cell \<open>highlightedIdx\<close> can hold. The component stores integers in it, and
  \<open>NaN\<close> (the remainder of a division by zero). The highlight effect can also store a
  member that the lookup table inherits from \<open>Object.prototype\<close>, or what such a member
  returns when the state setter runs it as an updater: the string \<open>"[object Undefined]"\<close>
  (\<open>UndefinedTag\<close>), the boolean \<open>false\<close>, the object \<open>Object.prototype\<close> itself, or the
  wrapper object that \<open>Object(prev)\<close> makes of a primitive. \<open>Thrown\<close> stands for an updater
  that threw a \<open>TypeError\<close>: the render fails and the component is unmounted.
\<close>

datatype jsidx =
  Num int | NaN | UndefinedTag | FalseValue | ObjectPrototype | Wrapper jsidx | Thrown

text \<open>
  The props that the logic reads. \<open>value_prop\<close> and \<open>defaultValue\<close> are \<open>Nullish\<close> when
  the caller passes none; \<open>onChange\<close> tells whether a change listener was passed.
\<close>

record props =
  options :: "item list"
  value_prop :: jsval
  defaultValue :: jsval
  onChange :: bool
  multi :: bool
  disabled :: bool

text \<open>The three \<open>useState\<close> cells of the component.\<close>

record state =
  internalValue :: jsval
  open_st :: bool
  highlightedIdx :: jsidx

subsection \<open>Controlled and uncontrolled value\<close>

text \<open>\<open>const isControlled = value != null\<close>, evaluated by every render from its props.\<close>

definition isControlled :: "props \<Rightarrow> bool" where
  "isControlled p = (value_prop p \<noteq> Nullish)"

definition selectedValue :: "props \<Rightarrow> state \<Rightarrow> jsval" where
  "selectedValue p s = (if isControlled p then value_prop p else internalValue s)"

text \<open>The state at mount: \<open>defaultValue ?? (multi ? [] : null)\<close>, closed, nothing highlighted.\<close>

definition initialState :: "props \<Rightarrow> state" where
  "initialState p =
     \<lparr>internalValue =
        (case defaultValue p of
           Nullish \<Rightarrow> (if multi p then Arr [] else Nullish)
         | Prim v \<Rightarrow> Prim v
         | Arr vs \<Rightarrow> Arr vs),
      open_st = False,
      highlightedIdx = Num (- 1)\<rparr>"

subsection \<open>Property keys\<close>

text \<open>
  A value used as a property key is converted to a string: a string is its own key, a
  boolean is \<open>"true"\<close> or \<open>"false"\<close>, an integer is its decimal digits, and an array is
  the keys of its elements joined by commas.
\<close>

fun decimal :: "nat \<Rightarrow> string" where
  "decimal n =
     (if n < 10 then [''0123456789'' ! n]
      else decimal (n div 10) @ [''0123456789'' ! (n mod 10)])"

definition primToString :: "prim \<Rightarrow> string" where
  "primToString v =
     (case v of
        PStr s \<Rightarrow> s
      | PNum n \<Rightarrow> (if n < 0 then ''-'' @ decimal (nat (- n)) else decimal (nat n))
      | PBool b \<Rightarrow> (if b then ''true'' else ''false''))"

fun joinKeys :: "string list \<Rightarrow> string" where
  "joinKeys [] = []"
| "joinKeys [k] = k"
| "joinKeys (k # k' # ks) = k @ '','' @ joinKeys (k' # ks)"

text \<open>The key of a selected value that is not absent.\<close>

definition toPropertyKey :: "jsval \<Rightarrow> string option" where
  "toPropertyKey sel =
     (case sel of
        Nullish \<Rightarrow> None
      | Prim v \<Rightarrow> Some (primToString v)
      | Arr vs \<Rightarrow> Some (joinKeys (map primToString vs)))"

subsection \<open>The value-to-index table\<close>

text \<open>
  \<open>options.reduce((map, o, i) => { map[o.value] = i; return map; }, {})\<close>. The table is
  a plain object: its own properties are keyed by the property keys of the option values,
  a later option with the same key overwriting an earlier one. An assignment to the key
  \<open>__proto__\<close> runs the setter inherited from \<open>Object.prototype\<close>, which ignores a number
  and stores nothing.
\<close>

definition assign :: "(string \<rightharpoonup> nat) \<Rightarrow> string \<Rightarrow> nat \<Rightarrow> (string \<rightharpoonup> nat)" where
  "assign m k i = (if k = ''__proto__'' then m else m(k \<mapsto> i))"

definition value2idx :: "item list \<Rightarrow> (string \<rightharpoonup> nat)" where
  "value2idx opts =
     fold (\<lambda>(opt, i) m. assign m (primToString (item_value opt)) i)
       (zip opts [0..<length opts]) Map.empty"

text \<open>
  Reading a property of the table, \<open>value2idx[key]\<close>, finds an own property, or else a
  member inherited from \<open>Object.prototype\<close>: one of its methods, or through the getter
  \<open>__proto__\<close> the object \<open>Object.prototype\<close> itself; any other key gives \<open>undefined\<close>.
\<close>

datatype member = Own nat | InheritedMethod string | InheritedObject | Undefined

definition inheritedMethods :: "string list" where
  "inheritedMethods =
     [''constructor'', ''__defineGetter__'', ''__defineSetter__'', ''hasOwnProperty'',
      ''__lookupGetter__'', ''__lookupSetter__'', ''isPrototypeOf'',
      ''propertyIsEnumerable'', ''toString'', ''valueOf'', ''toLocaleString'']"

definition getProperty :: "(string \<rightharpoonup> nat) \<Rightarrow> string \<Rightarrow> member" where
  "getProperty m k =
     (case m k of
        Some i \<Rightarrow> Own i
      | None \<Rightarrow>
          (if k = ''__proto__'' then InheritedObject
           else if k \<in> set inheritedMethods then InheritedMethod k
           else Undefined))"

subsection \<open>The highlight effect\<close>

text \<open>\<open>Object(prev)\<close>: an object is returned as it is, a primitive is wrapped.\<close>

definition isObject :: "jsidx \<Rightarrow> bool" where
  "isObject x = (case x of Wrapper y \<Rightarrow> True | ObjectPrototype \<Rightarrow> True | _ \<Rightarrow> False)"

definition objectOf :: "jsidx \<Rightarrow> jsidx" where
  "objectOf x = (if isObject x then x else Wrapper x)"

text \<open>
  The state setter runs a function that it is passed as an updater, \<open>action(prev)\<close>, with
  no \<open>this\<close>. Of the inherited methods, \<open>constructor\<close> is \<open>Object\<close>; \<open>toString\<close> returns
  the tag of \<open>undefined\<close>; \<open>isPrototypeOf\<close> returns \<open>false\<close> for a primitive argument and
  otherwise converts \<open>this\<close> to an object, which throws; every other method converts
  \<open>this\<close> to an object first and throws.
\<close>

definition callUpdater :: "string \<Rightarrow> jsidx \<Rightarrow> jsidx" where
  "callUpdater name prev =
     (if name = ''constructor'' then objectOf prev
      else if name = ''toString'' then UndefinedTag
      else if name = ''isPrototypeOf'' then (if isObject prev then Thrown else FalseValue)
      else Thrown)"

text \<open>
  The effect with the dependencies \<open>[open, selectedValue, multi, value2idx]\<close>: the value
  it leaves in \<open>highlightedIdx\<close>,
  \<open>setHighlightedIdx(value2idx[selectedValue])\<close> when
  \<open>!multi && selectedValue != null && value2idx[selectedValue] != null\<close>.
\<close>

definition highlightEffect :: "props \<Rightarrow> state \<Rightarrow> jsidx" where
  "highlightEffect p s =
     (if open_st s then
        (if \<not> multi p then
           (case toPropertyKey (selectedValue p s) of
              None \<Rightarrow> Num 0
            | Some k \<Rightarrow>
                (case getProperty (value2idx (options p)) k of
                   Own i \<Rightarrow> Num (int i)
                 | InheritedMethod name \<Rightarrow> callUpdater name (highlightedIdx s)
                 | InheritedObject \<Rightarrow> ObjectPrototype
                 | Undefined \<Rightarrow> Num 0))
         else Num 0)
      else Num (- 1))"

definition runEffect :: "props \<Rightarrow> state \<Rightarrow> state" where
  "runEffect p s = s\<lparr>highlightedIdx := highlightEffect p s\<rparr>"

subsection \<open>Selection\<close>

definition isSelected :: "props \<Rightarrow> state \<Rightarrow> prim \<Rightarrow> bool" where
  "isSelected p s optVal =
     (if \<not> multi p then selectedValue p s = Prim optVal
      else (case selectedValue p s of Arr vs \<Rightarrow> optVal \<in> set vs | _ \<Rightarrow> False))"

text \<open>
  What a handler leaves behind: the next state, the calls of \<open>onChange\<close> it made (their
  arguments, in order), and whether it stored a selected value that \<open>Object.is\<close> tells
  from the one of the last render (an array made by \<open>filter\<close> or by spreading is always a
  new object).
\<close>

record outcome =
  new_state :: state
  calls :: "jsval list"
  fresh_value :: bool

definition unchanged :: "state \<Rightarrow> outcome" where
  "unchanged s = \<lparr>new_state = s, calls = [], fresh_value = False\<rparr>"

text \<open>\<open>Array.isArray(selectedValue) ? selectedValue : []\<close>\<close>

definition oldVals :: "jsval \<Rightarrow> prim list" where
  "oldVals sel = (case sel of Arr vs \<Rightarrow> vs | _ \<Rightarrow> [])"

definition newVals :: "prim \<Rightarrow> prim list \<Rightarrow> prim list" where
  "newVals v old = (if v \<in> set old then filter (\<lambda>x. x \<noteq> v) old else old @ [v])"

definition handleSelect :: "props \<Rightarrow> state \<Rightarrow> item \<Rightarrow> outcome" where
  "handleSelect p s opt =
     (if disabled p then unchanged s
      else if multi p then
        (let new = newVals (item_value opt) (oldVals (selectedValue p s)) in
         \<lparr>new_state = (if \<not> isControlled p then s\<lparr>internalValue := Arr new\<rparr> else s),
          calls = (if onChange p then [Arr new] else []),
          fresh_value = (\<not> isControlled p)\<rparr>)
      else
        \<lparr>new_state =
           (if \<not> isControlled p then s\<lparr>internalValue := Prim (item_value opt)\<rparr> else s)
             \<lparr>open_st := False\<rparr>,
         calls = (if onChange p then [Prim (item_value opt)] else []),
         fresh_value = (\<not> isControlled p \<and> internalValue s \<noteq> Prim (item_value opt))\<rparr>)"

subsection \<open>Keyboard\<close>

datatype key = ArrowDown | ArrowUp | Enter | Space | Escape | Tab | OtherKey

text \<open>
  The number that arithmetic and comparisons make of the content of the cell (\<open>None\<close> is
  \<open>NaN\<close>): \<open>false\<close> is 0, a wrapper is its primitive, and the string
  \<open>"[object Undefined]"\<close> and \<open>Object.prototype\<close> (which converts to the string
  \<open>"[object Object]"\<close>) are \<open>NaN\<close>. Adding 1 to one of these strings concatenates, and the
  remainder of the result is \<open>NaN\<close> again.
\<close>

fun toNumber :: "jsidx \<Rightarrow> int option" where
  "toNumber (Num i) = Some i"
| "toNumber FalseValue = Some 0"
| "toNumber (Wrapper x) = toNumber x"
| "toNumber x = None"

text \<open>
  The remainder operator \<open>%\<close> on integers: the sign of the dividend, \<open>NaN\<close> for a zero
  divisor.
\<close>

definition js_rem :: "int \<Rightarrow> int \<Rightarrow> jsidx" where
  "js_rem a b = (if b = 0 then NaN else Num (sgn a * (\<bar>a\<bar> mod \<bar>b\<bar>)))"

text \<open>The updater of ArrowDown: \<open>(idx) => (idx + 1) % options.length\<close>\<close>

definition arrowDownUpdater :: "nat \<Rightarrow> jsidx \<Rightarrow> jsidx" where
  "arrowDownUpdater len idx =
     (case toNumber idx of Some i \<Rightarrow> js_rem (i + 1) (int len) | None \<Rightarrow> NaN)"

text \<open>
  The updater of ArrowUp: \<open>(idx) => idx <= 0 ? options.length - 1 : idx - 1\<close>. \<open>NaN <= 0\<close>
  is false and \<open>NaN - 1\<close> is \<open>NaN\<close>.
\<close>

definition arrowUpUpdater :: "nat \<Rightarrow> jsidx \<Rightarrow> jsidx" where
  "arrowUpUpdater len idx =
     (case toNumber idx of
        Some i \<Rightarrow> (if i \<le> 0 then Num (int len - 1) else Num (i - 1))
      | None \<Rightarrow> NaN)"

text \<open>
  \<open>options[highlightedIdx]\<close>: the cell is converted to a property key, and the array has
  an element under the decimal digits of each of its indices only. The key of a wrapped
  number is that of the number; the key of \<open>false\<close> is \<open>"false"\<close>.
\<close>

fun elementIndex :: "jsidx \<Rightarrow> int option" where
  "elementIndex (Num i) = Some i"
| "elementIndex (Wrapper (Num i)) = Some i"
| "elementIndex x = None"

definition elementAt :: "item list \<Rightarrow> jsidx \<Rightarrow> item option" where
  "elementAt opts idx =
     (case elementIndex idx of
        Some i \<Rightarrow> (if 0 \<le> i \<and> i < int (length opts) then Some (opts ! nat i) else None)
      | None \<Rightarrow> None)"

text \<open>Enter and Space: \<open>if (highlightedIdx >= 0 && options[highlightedIdx]) handleSelect(...)\<close>\<close>

definition commitHighlighted :: "props \<Rightarrow> state \<Rightarrow> outcome" where
  "commitHighlighted p s =
     (if (case toNumber (highlightedIdx s) of Some i \<Rightarrow> 0 \<le> i | None \<Rightarrow> False) then
        (case elementAt (options p) (highlightedIdx s) of
           Some opt \<Rightarrow> handleSelect p s opt
         | None \<Rightarrow> unchanged s)
      else unchanged s)"

definition handleKeyDown :: "props \<Rightarrow> state \<Rightarrow> key \<Rightarrow> outcome" where
  "handleKeyDown p s k =
     (if disabled p then unchanged s
      else if \<not> open_st s then
        (if k = ArrowDown \<or> k = Enter \<or> k = Space
         then unchanged (s\<lparr>open_st := True\<rparr>)
         else unchanged s)
      else
        (case k of
           ArrowDown \<Rightarrow>
             unchanged (s\<lparr>highlightedIdx := arrowDownUpdater (length (options p)) (highlightedIdx s)\<rparr>)
         | ArrowUp \<Rightarrow>
             unchanged (s\<lparr>highlightedIdx := arrowUpUpdater (length (options p)) (highlightedIdx s)\<rparr>)
         | Enter \<Rightarrow> commitHighlighted p s
         | Space \<Rightarrow> commitHighlighted p s
         | Escape \<Rightarrow> unchanged (s\<lparr>open_st := False\<rparr>)
         | Tab \<Rightarrow> unchanged (s\<lparr>open_st := False\<rparr>)
         | OtherKey \<Rightarrow> unchanged s))"

subsection \<open>Events and renders\<close>

text \<open>
  The interactions of the rendered tree: a click on the trigger button, a key pressed on
  it, a click on the \<open>i\<close>-th option or the pointer entering it (the list is rendered only
  while the menu is open, one item per option), and a pointer or touch start outside the
  menu and the button (listened to only while open). A disabled button receives neither
  clicks nor key events, and its handlers check \<open>disabled\<close> all the same; the options
  of an open menu receive clicks whether or not the button is disabled.
\<close>

datatype event = TriggerClick | KeyDown key | OptionClick nat | OptionHover nat | OutsideClick

definition handleEvent :: "props \<Rightarrow> state \<Rightarrow> event \<Rightarrow> outcome" where
  "handleEvent p s e =
     (case e of
        TriggerClick \<Rightarrow>
          (if \<not> disabled p then unchanged (s\<lparr>open_st := \<not> open_st s\<rparr>) else unchanged s)
      | KeyDown k \<Rightarrow> handleKeyDown p s k
      | OptionClick i \<Rightarrow>
          (if open_st s \<and> i < length (options p) then handleSelect p s (options p ! i)
           else unchanged s)
      | OptionHover i \<Rightarrow>
          (if open_st s \<and> i < length (options p)
           then unchanged (s\<lparr>highlightedIdx := Num (int i)\<rparr>)
           else unchanged s)
      | OutsideClick \<Rightarrow> (if open_st s then unchanged (s\<lparr>open_st := False\<rparr>) else unchanged s))"

text \<open>
  One event handled to completion: the handler, the render that follows, and the highlight
  effect when one of its dependencies changed (with the props unchanged these are \<open>open\<close>
  and the selected value). A component that was unmounted by a thrown error handles no
  event.
\<close>

definition step :: "props \<Rightarrow> state \<Rightarrow> event \<Rightarrow> state" where
  "step p s e =
     (if highlightedIdx s = Thrown then s
      else
        (let r = handleEvent p s e; s' = new_state r in
         if open_st s' = open_st s \<and> \<not> fresh_value r then s' else runEffect p s'))"

text \<open>
  A render with new props from the parent. For the arrays among them the parent tells
  whether the selected value it makes current is the very object that was the selected
  value of the last render (\<open>sameValue\<close>), and whether it passes the \<open>options\<close> array of the
  last render again (\<open>sameOptions\<close>); an array with other contents is another object, and
  primitives are compared by value. The internal value of an uncontrolled widget is the
  same object from one render to the next.
\<close>

datatype input = Ev event | Rerender props bool bool

definition objectIs :: "bool \<Rightarrow> jsval \<Rightarrow> jsval \<Rightarrow> bool" where
  "objectIs same a b =
     (case a of
        Arr xs \<Rightarrow> (case b of Arr ys \<Rightarrow> same \<and> xs = ys | _ \<Rightarrow> False)
      | _ \<Rightarrow> a = b)"

definition depsSame :: "props \<Rightarrow> props \<Rightarrow> state \<Rightarrow> bool \<Rightarrow> bool \<Rightarrow> bool" where
  "depsSame p p' s sameValue sameOptions =
     (multi p' = multi p
      \<and> (sameOptions \<and> options p' = options p)
      \<and> (if \<not> isControlled p \<and> \<not> isControlled p' then True
         else objectIs sameValue (selectedValue p s) (selectedValue p' s)))"

fun dispatch :: "props \<times> state \<Rightarrow> input \<Rightarrow> props \<times> state" where
  "dispatch (p, s) (Ev e) = (p, step p s e)"
| "dispatch (p, s) (Rerender p' sameValue sameOptions) =
     (p', if highlightedIdx s = Thrown \<or> depsSame p p' s sameValue sameOptions then s
          else runEffect p' s)"

definition mount :: "props \<Rightarrow> props \<times> state" where
  "mount p = (p, initialState p)"

definition run :: "props \<times> state \<Rightarrow> input list \<Rightarrow> props \<times> state" where
  "run c ins = foldl dispatch c ins"


subsection \<open>Values that name no inherited member\<close>

text \<open>
  A key is plain when it names no member that a plain object inherits from
  \<open>Object.prototype\<close>. A selected value is plain when the primitive, or each element of the
  array, has a plain key; props are plain when the value, the default value and the value
  of every option are.
\<close>

definition plainKey :: "string \<Rightarrow> bool" where
  "plainKey k = (k \<noteq> ''__proto__'' \<and> k \<notin> set inheritedMethods)"




text \<open>
  An input keeps the value-sourcing mode \<open>c\<close> (controlled or not) when it is an event, or
  a render whose props supply a value exactly when \<open>c\<close> says so.
\<close>

fun keepsMode :: "bool \<Rightarrow> input \<Rightarrow> bool" where
  "keepsMode c (Ev e) = True"
| "keepsMode c (Rerender p' sameValue sameOptions) = (isControlled p' = c)"


text \<open>
  The table tells a value \<open>v\<close> from the option values when the key of \<open>v\<close> is plain and
  every option with that key has the value \<open>v\<close> itself (a number and the string of its
  digits share a key).
\<close>

definition keyFaithful :: "item list \<Rightarrow> prim \<Rightarrow> bool" where
  "keyFaithful opts v =
     (plainKey (primToString v)
      \<and> list_all
          (\<lambda>opt. primToString (item_value opt) = primToString v \<longrightarrow> item_value opt = v) opts)"

section \<open>Example inputs\<close>

text \<open>
  A 1024 by 768 viewport and a menu of 200 by 300: a button near the top, one near the
  bottom with room above, and one in the middle with no room on either side.
\<close>

definition exViewport :: viewport where
  "exViewport = \<lparr>vp_width = 1024, vp_height = 768\<rparr>"

definition exMenu :: rect where
  "exMenu = \<lparr>rect_left = 0, rect_top = 0, rect_bottom = 300, rect_width = 200, rect_height = 300\<rparr>"

definition buttonHigh :: rect where
  "buttonHigh = \<lparr>rect_left = 100, rect_top = 100, rect_bottom = 130, rect_width = 120, rect_height = 30\<rparr>"

definition buttonLow :: rect where
  "buttonLow = \<lparr>rect_left = 100, rect_top = 700, rect_bottom = 730, rect_width = 120, rect_height = 30\<rparr>"

definition buttonTall :: rect where
  "buttonTall = \<lparr>rect_left = 100, rect_top = 300, rect_bottom = 500, rect_width = 120, rect_height = 200\<rparr>"

text \<open>A button close to the right edge, and a 320 wide viewport with a 400 wide menu.\<close>

definition buttonRight :: rect where
  "buttonRight = \<lparr>rect_left = 900, rect_top = 100, rect_bottom = 130, rect_width = 120, rect_height = 30\<rparr>"

definition narrowViewport :: viewport where
  "narrowViewport = \<lparr>vp_width = 320, vp_height = 568\<rparr>"

definition wideMenu :: rect where
  "wideMenu = \<lparr>rect_left = 0, rect_top = 0, rect_bottom = 300, rect_width = 400, rect_height = 300\<rparr>"

definition buttonNarrow :: rect where
  "buttonNarrow = \<lparr>rect_left = 16, rect_top = 100, rect_bottom = 130, rect_width = 120, rect_height = 30\<rparr>"

text \<open>
  Rectangles with fractions, in a 768 by 768 viewport: a button whose left and bottom
  edges are at 667.1 and a menu 100.9 wide and high (the double sum \<open>667.1 + 100.9\<close> is
  768); and in a 400 high viewport a button from 310.2 to 340.2 with a menu 100.7 high
  (the double difference \<open>310.2 - 100.7\<close> is 209.5).
\<close>

definition squareViewport :: viewport where
  "squareViewport = \<lparr>vp_width = 768, vp_height = 768\<rparr>"

definition buttonFraction :: rect where
  "buttonFraction =
     \<lparr>rect_left = dbl (6671 / 10), rect_top = dbl (6371 / 10), rect_bottom = dbl (6671 / 10),
      rect_width = 120, rect_height = 30\<rparr>"

definition menuFraction :: rect where
  "menuFraction =
     \<lparr>rect_left = 0, rect_top = 0, rect_bottom = dbl (1009 / 10),
      rect_width = dbl (1009 / 10), rect_height = dbl (1009 / 10)\<rparr>"

definition lowViewport :: viewport where
  "lowViewport = \<lparr>vp_width = 1024, vp_height = 400\<rparr>"

definition buttonHalf :: rect where
  "buttonHalf =
     \<lparr>rect_left = 100, rect_top = dbl (3102 / 10), rect_bottom = dbl (3402 / 10),
      rect_width = 120, rect_height = 30\<rparr>"

definition menuHalf :: rect where
  "menuHalf =
     \<lparr>rect_left = 0, rect_top = 0, rect_bottom = dbl (1007 / 10),
      rect_width = 200, rect_height = dbl (1007 / 10)\<rparr>"

text \<open>
  The options A, B, C with the values 1, 2, 3, in an uncontrolled single-select
  dropdown with no default value; the same with no option at all.
\<close>

definition exampleOptions :: "item list" where
  "exampleOptions =
     [\<lparr>item_label = ''A'', item_value = PNum 1\<rparr>,
      \<lparr>item_label = ''B'', item_value = PNum 2\<rparr>,
      \<lparr>item_label = ''C'', item_value = PNum 3\<rparr>]"

definition exampleProps :: props where
  "exampleProps =
     \<lparr>options = exampleOptions, value_prop = Nullish, defaultValue = Nullish,
      onChange = True, multi = False, disabled = False\<rparr>"


text \<open>
  The same options in a multi-select dropdown, in a controlled single-select one (the
  parent passes the value 1), in a controlled multi-select one (the parent passes the
  array holding 1), and the disabled variants of these.
\<close>

definition multiProps :: props where
  "multiProps = exampleProps\<lparr>multi := True\<rparr>"

definition controlledProps :: props where
  "controlledProps = exampleProps\<lparr>value_prop := Prim (PNum 1)\<rparr>"

definition controlledMultiProps :: props where
  "controlledMultiProps = exampleProps\<lparr>value_prop := Arr [PNum 1], multi := True\<rparr>"

definition disabledMultiProps :: props where
  "disabledMultiProps = multiProps\<lparr>disabled := True\<rparr>"

definition disabledControlledProps :: props where
  "disabledControlledProps = controlledProps\<lparr>disabled := True\<rparr>"

definition optionB :: item where
  "optionB = \<lparr>item_label = ''B'', item_value = PNum 2\<rparr>"

text \<open>A closed menu with the value 2 selected, and an open menu with the \<open>i\<close>-th option highlighted.\<close>

definition closedOnB :: state where
  "closedOnB = \<lparr>internalValue = Prim (PNum 2), open_st = False, highlightedIdx = Num (- 1)\<rparr>"

definition openAt :: "jsval \<Rightarrow> int \<Rightarrow> state" where
  "openAt sel i = \<lparr>internalValue = sel, open_st = True, highlightedIdx = Num i\<rparr>"

text \<open>
  The same options with a value that no option has but that names a method of
  \<open>Object.prototype\<close>; and options whose values are the strings \<open>"1"\<close>, \<open>"2"\<close>, \<open>"3"\<close>,
  with the number 2 as the value.
\<close>

definition inheritedKeyProps :: props where
  "inheritedKeyProps = exampleProps\<lparr>value_prop := Prim (PStr ''toString'')\<rparr>"

definition stringOptions :: "item list" where
  "stringOptions =
     [\<lparr>item_label = ''A'', item_value = PStr ''1''\<rparr>,
      \<lparr>item_label = ''B'', item_value = PStr ''2''\<rparr>,
      \<lparr>item_label = ''C'', item_value = PStr ''3''\<rparr>]"

definition coercedKeyProps :: props where
  "coercedKeyProps = exampleProps\<lparr>options := stringOptions, value_prop := Prim (PNum 2)\<rparr>"

section \<open>Properties of the placement\<close>

text \<open>
  C8. The placement of \<open>updatePosition\<close>, with \<open>+\<close>, \<open>-\<close> and \<open>>\<close> the operations of the
  source on doubles: by default the menu's top is the bottom edge of the trigger, its left
  is the trigger's left edge and it is not flipped. When the menu would overflow the
  viewport below (\<open>top + menuHeight > viewportHeight\<close>) and the trigger is further than
  \<open>menuHeight + 8\<close> from the top of the viewport, the placement flips: top is
  \<open>triggerTop - menuHeight\<close> and the position is \<open>'top'\<close>. When neither side has room,
  the placement below is kept. The stored style holds these coordinates, rounded by
  \<open>Math.round\<close>.
\<close>

theorem vertical_placement:
  "(\<not> (Fin (rect_bottom b) + Fin (rect_height m) > Fin (vp_height v)
        \<and> Fin (rect_top b) > Fin (rect_height m) + Fin 8) \<longrightarrow>
      placementTop b m v = Fin (rect_bottom b) \<and> placementPos b m v = PosBottom)
   \<and> (Fin (rect_bottom b) + Fin (rect_height m) > Fin (vp_height v)
        \<and> Fin (rect_top b) > Fin (rect_height m) + Fin 8 \<longrightarrow>
      placementTop b m v = Fin (rect_top b) - Fin (rect_height m)
      \<and> placementPos b m v = PosTop)
   \<and> (\<not> Fin (rect_left b) + Fin (rect_width m) > Fin (vp_width v) \<longrightarrow>
      adjustedLeft b m v = Fin (rect_left b))
   \<and> updatePosition (Some b) (Some m) v st =
       \<lparr>style_of = Fixed (Math_round (placementTop b m v)) (Math_round (adjustedLeft b m v))
                     (Math_max (Fin (rect_width b)) (Fin 160)),
        position_of = placementPos b m v\<rparr>"
  by (simp add: overflowsBottom_def placementTop_def placementPos_def adjustedLeft_def
      updatePosition_def)

text \<open>
  The three buttons of the example: placed below, flipped above, and kept below for want
  of room above. The button at 667.1 with the menu of 100.9: the sum is the double 768,
  which is not above the viewport height 768, so the menu stays below at the rounded 667
  (the exact sum of the two doubles is above 768). The button at 310.2 with the menu of
  100.7 is flipped to 209.5, stored as 210.
\<close>

theorem vertical_placement_witness:
  "Fin (rect_bottom buttonLow) + Fin (rect_height exMenu) > Fin (vp_height exViewport)
   \<and> Fin (rect_top buttonLow) > Fin (rect_height exMenu) + Fin 8
   \<and> Fin (rect_bottom buttonTall) + Fin (rect_height exMenu) > Fin (vp_height exViewport)
   \<and> placementTop buttonHigh exMenu exViewport = Fin 130
   \<and> placementPos buttonHigh exMenu exViewport = PosBottom
   \<and> adjustedLeft buttonHigh exMenu exViewport = Fin 100
   \<and> placementTop buttonLow exMenu exViewport = Fin 400
   \<and> placementPos buttonLow exMenu exViewport = PosTop
   \<and> placementTop buttonTall exMenu exViewport = Fin 500
   \<and> placementPos buttonTall exMenu exViewport = PosBottom
   \<and> updatePosition (Some buttonLow) (Some exMenu) exViewport initialPosition =
       \<lparr>style_of = Fixed (Fin 400) (Fin 100) (Fin 160), position_of = PosTop\<rparr>
   \<and> Fin (rect_bottom buttonFraction) + Fin (rect_height menuFraction) = Fin 768
   \<and> rect_bottom buttonFraction + rect_height menuFraction > 768
   \<and> updatePosition (Some buttonFraction) (Some menuFraction) squareViewport initialPosition =
       \<lparr>style_of = Fixed (Fin 667) (Fin 667) (Fin 160), position_of = PosBottom\<rparr>
   \<and> placementTop buttonHalf menuHalf lowViewport = Fin (419 / 2)
   \<and> updatePosition (Some buttonHalf) (Some menuHalf) lowViewport initialPosition =
       \<lparr>style_of = Fixed (Fin 210) (Fin 100) (Fin 160), position_of = PosTop\<rparr>"
proof -
  have low: "Fin (rect_bottom buttonLow) + Fin (rect_height exMenu) > Fin (vp_height exViewport)"
      "Fin (rect_top buttonLow) > Fin (rect_height exMenu) + Fin 8"
    by code_simp+
  have tall: "Fin (rect_bottom buttonTall) + Fin (rect_height exMenu) > Fin (vp_height exViewport)"
      "\<not> Fin (rect_top buttonTall) > Fin (rect_height exMenu) + Fin 8"
    by code_simp+
  have high: "\<not> Fin (rect_bottom buttonHigh) + Fin (rect_height exMenu) > Fin (vp_height exViewport)"
      "\<not> Fin (rect_left buttonHigh) + Fin (rect_width exMenu) > Fin (vp_width exViewport)"
    by code_simp+
  have vals: "Fin (rect_bottom buttonHigh) = Fin 130" "Fin (rect_left buttonHigh) = Fin 100"
      "Fin (rect_top buttonLow) - Fin (rect_height exMenu) = Fin 400"
      "Fin (rect_bottom buttonTall) = Fin 500"
      "Math_round (Fin 400) = Fin 400"
      "Math_round (adjustedLeft buttonLow exMenu exViewport) = Fin 100"
      "Math_max (Fin (rect_width buttonLow)) (Fin 160) = Fin 160"
    by code_simp+
  have fraction: "Fin (rect_bottom buttonFraction) + Fin (rect_height menuFraction) = Fin 768"
      "rect_bottom buttonFraction + rect_height menuFraction > 768"
      "\<not> Fin (rect_bottom buttonFraction) + Fin (rect_height menuFraction)
          > Fin (vp_height squareViewport)"
      "Math_round (Fin (rect_bottom buttonFraction)) = Fin 667"
      "Math_round (adjustedLeft buttonFraction menuFraction squareViewport) = Fin 667"
      "Math_max (Fin (rect_width buttonFraction)) (Fin 160) = Fin 160"
    by code_simp+
  have half: "Fin (rect_bottom buttonHalf) + Fin (rect_height menuHalf) > Fin (vp_height lowViewport)"
      "Fin (rect_top buttonHalf) > Fin (rect_height menuHalf) + Fin 8"
      "Fin (rect_top buttonHalf) - Fin (rect_height menuHalf) = Fin (419 / 2)"
      "Math_round (Fin (419 / 2)) = Fin 210"
      "Math_round (adjustedLeft buttonHalf menuHalf lowViewport) = Fin 100"
      "Math_max (Fin (rect_width buttonHalf)) (Fin 160) = Fin 160"
    by code_simp+
  show ?thesis
    using low tall high vals fraction half
      vertical_placement [where b = buttonHigh and m = exMenu and v = exViewport
        and st = initialPosition]
      vertical_placement [where b = buttonLow and m = exMenu and v = exViewport
        and st = initialPosition]
      vertical_placement [where b = buttonTall and m = exMenu and v = exViewport
        and st = initialPosition]
      vertical_placement [where b = buttonFraction and m = menuFraction and v = squareViewport
        and st = initialPosition]
      vertical_placement [where b = buttonHalf and m = menuHalf and v = lowViewport
        and st = initialPosition]
    by simp
qed

text \<open>
  C9, as amended. When \<open>triggerLeft + menuWidth > viewportWidth\<close> the computed left is
  \<open>max(8, viewportWidth - menuWidth - 8)\<close>: it is \<open>viewportWidth - menuWidth - 8\<close> when
  that is at least 8, and 8 otherwise (\<open>+\<close>, \<open>-\<close> and the comparisons are those of the
  source on doubles). The stored style holds it rounded by \<open>Math.round\<close>.
\<close>

theorem horizontal_clamp:
  "Fin (rect_left b) + Fin (rect_width m) > Fin (vp_width v) \<longrightarrow>
     adjustedLeft b m v = Math_max (Fin 8) (Fin (vp_width v) - Fin (rect_width m) - Fin 8)
   \<and> (Fin 8 \<le> Fin (vp_width v) - Fin (rect_width m) - Fin 8 \<longrightarrow>
        adjustedLeft b m v = Fin (vp_width v) - Fin (rect_width m) - Fin 8)
   \<and> (Fin (vp_width v) - Fin (rect_width m) - Fin 8 < Fin 8 \<longrightarrow> adjustedLeft b m v = Fin 8)
   \<and> style_left (style_of (updatePosition (Some b) (Some m) v st))
       = Math_round (Math_max (Fin 8) (Fin (vp_width v) - Fin (rect_width m) - Fin 8))"
  by (auto simp: adjustedLeft_def updatePosition_def Math_max_def less_eq_jsfloat_def
      less_jsfloat_def split: jsfloat.splits)

text \<open>
  A 200 wide menu under a button at 900 in the 1024 wide viewport moves left to 816; the
  400 wide menu in the 320 wide viewport gets the margin 8.
\<close>

theorem horizontal_clamp_witness:
  "Fin (rect_left buttonRight) + Fin (rect_width exMenu) > Fin (vp_width exViewport)
   \<and> Fin 8 \<le> Fin (vp_width exViewport) - Fin (rect_width exMenu) - Fin 8
   \<and> adjustedLeft buttonRight exMenu exViewport = Fin 816
   \<and> Fin (rect_left buttonNarrow) + Fin (rect_width wideMenu) > Fin (vp_width narrowViewport)
   \<and> Fin (vp_width narrowViewport) - Fin (rect_width wideMenu) - Fin 8 < Fin 8
   \<and> adjustedLeft buttonNarrow wideMenu narrowViewport = Fin 8"
proof -
  have h: "Fin (rect_left buttonRight) + Fin (rect_width exMenu) > Fin (vp_width exViewport)"
      "Fin 8 \<le> Fin (vp_width exViewport) - Fin (rect_width exMenu) - Fin 8"
      "Fin (vp_width exViewport) - Fin (rect_width exMenu) - Fin 8 = Fin 816"
      "Fin (rect_left buttonNarrow) + Fin (rect_width wideMenu) > Fin (vp_width narrowViewport)"
      "Fin (vp_width narrowViewport) - Fin (rect_width wideMenu) - Fin 8 < Fin 8"
      "Math_max (Fin 8) (Fin 816) = Fin 816"
      "Math_max (Fin 8) (Fin (vp_width narrowViewport) - Fin (rect_width wideMenu) - Fin 8)
         = Fin 8"
    by code_simp+
  show ?thesis
    using h
      horizontal_clamp [where b = buttonRight and m = exMenu and v = exViewport
        and st = initialPosition]
      horizontal_clamp [where b = buttonNarrow and m = wideMenu and v = narrowViewport
        and st = initialPosition]
    by simp
qed

text \<open>
  The claim as stated fails: a 400 wide menu in a 320 wide viewport is wider than
  \<open>viewportWidth - triggerLeft\<close>, and its left is 8, not \<open>320 - 400 - 8\<close>.
\<close>

theorem horizontal_clamp_counterexample:
  "Fin (rect_width wideMenu) > Fin (vp_width narrowViewport) - Fin (rect_left buttonNarrow)
   \<and> adjustedLeft buttonNarrow wideMenu narrowViewport = Fin 8
   \<and> Fin (vp_width narrowViewport) - Fin (rect_width wideMenu) - Fin 8 = Fin (- 88)"
  by code_simp

section \<open>Properties of the highlighted index\<close>

subsection \<open>The value-to-index table\<close>

lemma value2idx_snoc:
  "value2idx (opts @ [x]) = assign (value2idx opts) (primToString (item_value x)) (length opts)"
  by (simp add: value2idx_def)









subsection \<open>Validity is kept by every handler and every effect\<close>



lemma js_rem_range:
  "0 \<le> a \<Longrightarrow> 0 < b \<Longrightarrow> js_rem a b = Num (a mod b)"
  by (cases "a = 0") (simp_all add: js_rem_def)

lemma handleSelect_idx:
  "highlightedIdx (new_state (handleSelect p s opt)) = highlightedIdx s"
  by (simp add: handleSelect_def unchanged_def Let_def)

lemma arrowDown_valid:
  assumes "0 < len" "i = - 1 \<or> (0 \<le> i \<and> i < int len)"
  shows "arrowDownUpdater len (Num i) = Num ((i + 1) mod int len)"
  using assms by (auto simp: arrowDownUpdater_def js_rem_range)





subsection \<open>What the handlers keep\<close>





















subsection \<open>Opening and closing\<close>

text \<open>A key found in the table is the key of the option at its index, the last such option.\<close>

lemma value2idx_proto: "value2idx opts ''__proto__'' = None"
  by (induction opts rule: rev_induct) (simp_all add: value2idx_def assign_def)

lemma value2idx_Some:
  "value2idx opts k = Some i \<Longrightarrow>
     i < length opts \<and> primToString (item_value (opts ! i)) = k
     \<and> (\<forall>j < length opts. primToString (item_value (opts ! j)) = k \<longrightarrow> j \<le> i)"
proof (induction opts arbitrary: i rule: rev_induct)
  case Nil
  then show ?case by (simp add: value2idx_def)
next
  case (snoc x xs)
  have k: "k \<noteq> ''__proto__''"
    using snoc.prems value2idx_proto [of "xs @ [x]"] by auto
  show ?case
  proof (cases "primToString (item_value x) = k")
    case True
    with snoc.prems k have "i = length xs" by (simp add: value2idx_snoc assign_def)
    with True show ?thesis by (auto simp: less_Suc_eq)
  next
    case False
    with snoc.prems have "value2idx xs k = Some i"
      by (simp add: value2idx_snoc assign_def split: if_splits)
    from snoc.IH [OF this] False show ?thesis
      by (auto simp: nth_append less_Suc_eq)
  qed
qed

lemma value2idx_None:
  "k \<noteq> ''__proto__'' \<Longrightarrow>
   (value2idx opts k = None) = (k \<notin> (\<lambda>opt. primToString (item_value opt)) ` set opts)"
  by (induction opts rule: rev_induct) (auto simp: value2idx_def value2idx_snoc assign_def)

lemma keyFaithful_iff:
  "keyFaithful opts v =
     (plainKey (primToString v)
      \<and> (\<forall>opt \<in> set opts. primToString (item_value opt) = primToString v \<longrightarrow> item_value opt = v))"
  by (simp add: keyFaithful_def list_all_iff)

lemma selectedValue_open:
  "selectedValue p (s\<lparr>open_st := b\<rparr>) = selectedValue p s"
  by (simp add: selectedValue_def)

text \<open>The only handlers that open a closed menu set the flag and nothing else.\<close>

lemma handleEvent_opening:
  assumes "\<not> open_st s" "open_st (new_state (handleEvent p s e))"
  shows "handleEvent p s e = unchanged (s\<lparr>open_st := True\<rparr>)"
  using assms
  by (cases e)
     (auto simp: handleEvent_def handleKeyDown_def unchanged_def split: if_splits)

lemma step_opening:
  assumes "\<not> open_st s" "open_st (step p s e)"
  shows "step p s e = runEffect p (s\<lparr>open_st := True\<rparr>)"
proof -
  have t: "highlightedIdx s \<noteq> Thrown"
    using assms by (auto simp: step_def)
  then have o: "open_st (new_state (handleEvent p s e))"
    using assms(2) by (auto simp: step_def Let_def runEffect_def split: if_splits)
  from handleEvent_opening [OF assms(1) o] assms(1) t show ?thesis
    by (simp add: step_def unchanged_def)
qed

lemma step_closing:
  assumes "open_st s" "\<not> open_st (step p s e)"
  shows "highlightedIdx (step p s e) = Num (- 1)"
  using assms by (auto simp: step_def Let_def runEffect_def highlightEffect_def split: if_splits)

lemma open_effect_multi:
  "open_st s \<Longrightarrow> multi p \<Longrightarrow> highlightEffect p s = Num 0"
  by (simp add: highlightEffect_def)

lemma open_effect_nullish:
  "open_st s \<Longrightarrow> selectedValue p s = Nullish \<Longrightarrow> highlightEffect p s = Num 0"
  by (simp add: highlightEffect_def toPropertyKey_def)

lemma open_effect_absent:
  assumes "open_st s" "selectedValue p s = Prim v" "keyFaithful (options p) v"
    "v \<notin> item_value ` set (options p)"
  shows "highlightEffect p s = Num 0"
proof -
  from assms(3,4) have "primToString v \<notin> (\<lambda>opt. primToString (item_value opt)) ` set (options p)"
    by (auto simp: keyFaithful_iff)
  moreover from assms(3) have k: "plainKey (primToString v)"
    by (simp add: keyFaithful_iff)
  ultimately have "getProperty (value2idx (options p)) (primToString v) = Undefined"
    using value2idx_None [of "primToString v" "options p"]
    by (simp add: getProperty_def plainKey_def)
  with assms(1,2) show ?thesis
    by (simp add: highlightEffect_def toPropertyKey_def)
qed

lemma open_effect_present:
  assumes "open_st s" "\<not> multi p" "selectedValue p s = Prim v" "keyFaithful (options p) v"
    "v \<in> item_value ` set (options p)"
  shows "\<exists>i < length (options p). highlightEffect p s = Num (int i)
           \<and> item_value (options p ! i) = v
           \<and> (\<forall>j < length (options p). item_value (options p ! j) = v \<longrightarrow> j \<le> i)"
proof -
  from assms(4) have k: "primToString v \<noteq> ''__proto__''"
    by (simp add: keyFaithful_iff plainKey_def)
  from assms(5) have "primToString v \<in> (\<lambda>opt. primToString (item_value opt)) ` set (options p)"
    by auto
  with k obtain i where i: "value2idx (options p) (primToString v) = Some i"
    using value2idx_None [of "primToString v" "options p"] by auto
  from value2idx_Some [OF i]
  have b: "i < length (options p)" "primToString (item_value (options p ! i)) = primToString v"
      "\<forall>j < length (options p). primToString (item_value (options p ! j)) = primToString v \<longrightarrow> j \<le> i"
    by simp_all
  from assms(4) b(1,2) have "item_value (options p ! i) = v"
    by (simp add: keyFaithful_iff)
  moreover have "highlightEffect p s = Num (int i)"
    using assms(1-3) i by (simp add: highlightEffect_def toPropertyKey_def getProperty_def)
  ultimately show ?thesis
    using b(1,3) by auto
qed

text \<open>
  What opening and closing do to the highlight whenever the table tells the selected
  value from the option values. On an enabled widget a click on the trigger, ArrowDown,
  Enter and Space open a closed menu. Whenever an event opens the menu: in multi-select
  mode the highlighted index becomes 0; in single-select mode it becomes 0 when nothing
  is selected or the selected value is the value of no option, and otherwise the index of
  the option with the selected value (the last one, should several options share it).
  Whenever an event closes the menu, the highlighted index becomes \<open>-1\<close>.
\<close>

lemma open_close_highlight:
  "(\<not> disabled p \<and> \<not> open_st s \<and> highlightedIdx s \<noteq> Thrown
      \<and> e \<in> {TriggerClick, KeyDown ArrowDown, KeyDown Enter, KeyDown Space}
      \<longrightarrow> open_st (step p s e))
   \<and> (\<not> open_st s \<and> open_st (step p s e) \<longrightarrow>
        (multi p \<longrightarrow> highlightedIdx (step p s e) = Num 0)
      \<and> (\<not> multi p \<and> selectedValue p s = Nullish \<longrightarrow> highlightedIdx (step p s e) = Num 0)
      \<and> (\<forall>v. \<not> multi p \<and> selectedValue p s = Prim v \<and> keyFaithful (options p) v \<longrightarrow>
            (v \<notin> item_value ` set (options p) \<longrightarrow> highlightedIdx (step p s e) = Num 0)
          \<and> (v \<in> item_value ` set (options p) \<longrightarrow>
               (\<exists>i < length (options p).
                   highlightedIdx (step p s e) = Num (int i)
                 \<and> item_value (options p ! i) = v
                 \<and> (\<forall>j < length (options p). item_value (options p ! j) = v \<longrightarrow> j \<le> i)))))
   \<and> (open_st s \<and> \<not> open_st (step p s e) \<longrightarrow> highlightedIdx (step p s e) = Num (- 1))"
proof (intro conjI impI allI)
  assume "\<not> disabled p \<and> \<not> open_st s \<and> highlightedIdx s \<noteq> Thrown
    \<and> e \<in> {TriggerClick, KeyDown ArrowDown, KeyDown Enter, KeyDown Space}"
  then show "open_st (step p s e)"
    by (auto simp: step_def handleEvent_def handleKeyDown_def unchanged_def runEffect_def Let_def)
next
  assume "\<not> open_st s \<and> open_st (step p s e)" and "multi p"
  then show "highlightedIdx (step p s e) = Num 0"
    using step_opening [of s p e] by (simp add: runEffect_def open_effect_multi)
next
  assume "\<not> open_st s \<and> open_st (step p s e)" and "\<not> multi p \<and> selectedValue p s = Nullish"
  then show "highlightedIdx (step p s e) = Num 0"
    using step_opening [of s p e]
    by (simp add: runEffect_def open_effect_nullish selectedValue_open)
next
  fix v
  assume a: "\<not> open_st s \<and> open_st (step p s e)"
    and b: "\<not> multi p \<and> selectedValue p s = Prim v \<and> keyFaithful (options p) v"
    and c: "v \<notin> item_value ` set (options p)"
  have "selectedValue p (s\<lparr>open_st := True\<rparr>) = Prim v"
    using b by (simp add: selectedValue_open)
  with a b c show "highlightedIdx (step p s e) = Num 0"
    using step_opening [of s p e] by (simp add: runEffect_def open_effect_absent)
next
  fix v
  assume a: "\<not> open_st s \<and> open_st (step p s e)"
    and b: "\<not> multi p \<and> selectedValue p s = Prim v \<and> keyFaithful (options p) v"
    and c: "v \<in> item_value ` set (options p)"
  have "selectedValue p (s\<lparr>open_st := True\<rparr>) = Prim v"
    using b by (simp add: selectedValue_open)
  with a b c show "\<exists>i < length (options p).
                   highlightedIdx (step p s e) = Num (int i)
                 \<and> item_value (options p ! i) = v
                 \<and> (\<forall>j < length (options p). item_value (options p ! j) = v \<longrightarrow> j \<le> i)"
    using step_opening [of s p e] open_effect_present [of "s\<lparr>open_st := True\<rparr>" p v]
    by (simp add: runEffect_def)
next
  assume "open_st s \<and> \<not> open_st (step p s e)"
  then show "highlightedIdx (step p s e) = Num (- 1)" by (simp add: step_closing)
qed

text \<open>
  C2 does not hold of the code. The lookup table is a plain object, so a lookup also
  finds the members that it inherits from \<open>Object.prototype\<close>, and it converts the
  selected value to a property key. On the options A, B, C with the values 1, 2, 3 and
  the value \<open>toString\<close>, which no option has, a click on the trigger opens the menu and
  stores the string \<open>"[object Undefined]"\<close> as the highlighted index, where the claim
  says 0. On options with the strings \<open>"1"\<close>, \<open>"2"\<close>, \<open>"3"\<close> as values and the number 2
  as the value, no option has the value and none is rendered as selected, and the menu
  opens on index 1, where the claim says 0.
\<close>

theorem open_highlight_divergence:
  "map item_value (options inheritedKeyProps) = [PNum 1, PNum 2, PNum 3]
   \<and> multi inheritedKeyProps = False
   \<and> selectedValue inheritedKeyProps (snd (mount inheritedKeyProps)) = Prim (PStr ''toString'')
   \<and> step inheritedKeyProps (snd (mount inheritedKeyProps)) TriggerClick
       = \<lparr>internalValue = Nullish, open_st = True, highlightedIdx = UndefinedTag\<rparr>
   \<and> map item_value (options coercedKeyProps) = [PStr ''1'', PStr ''2'', PStr ''3'']
   \<and> multi coercedKeyProps = False
   \<and> selectedValue coercedKeyProps (snd (mount coercedKeyProps)) = Prim (PNum 2)
   \<and> map (\<lambda>opt. isSelected coercedKeyProps (snd (mount coercedKeyProps)) (item_value opt))
        (options coercedKeyProps) = [False, False, False]
   \<and> step coercedKeyProps (snd (mount coercedKeyProps)) TriggerClick
       = \<lparr>internalValue = Nullish, open_st = True, highlightedIdx = Num 1\<rparr>"
  by code_simp

subsection \<open>Moving the highlight\<close>

lemma arrowUp_mod:
  assumes "0 < len" "0 \<le> i" "i < int len"
  shows "arrowUpUpdater len (Num i) = Num ((i - 1) mod int len)"
proof (cases "i = 0")
  case True
  have "(- 1) mod int len = int len - 1"
    using assms(1) by (simp add: zmod_minus1)
  with True show ?thesis by (simp add: arrowUpUpdater_def)
next
  case False
  with assms have "(i - 1) mod int len = i - 1" by simp
  with False assms show ?thesis by (simp add: arrowUpUpdater_def)
qed

text \<open>
  C3. On a non-empty option list, from any index \<open>i\<close> of the list, the updater of
  ArrowDown yields \<open>(i + 1) mod optionCount\<close> and the updater of ArrowUp yields
  \<open>(i - 1) mod optionCount\<close>: from the last index ArrowDown yields 0, and from 0
  ArrowUp yields the last index. With the menu open on an enabled widget (a disabled
  button receives no key events), the two keys store exactly these indices and change
  nothing else.
\<close>

theorem highlight_wraps:
  "0 < len \<and> 0 \<le> i \<and> i < int len \<longrightarrow>
     arrowDownUpdater len (Num i) = Num ((i + 1) mod int len)
   \<and> arrowUpUpdater len (Num i) = Num ((i - 1) mod int len)
   \<and> arrowDownUpdater len (Num (int len - 1)) = Num 0
   \<and> arrowUpUpdater len (Num 0) = Num (int len - 1)
   \<and> (open_st s \<and> \<not> disabled p \<and> length (options p) = len \<and> highlightedIdx s = Num i \<longrightarrow>
        step p s (KeyDown ArrowDown) = s\<lparr>highlightedIdx := Num ((i + 1) mod int len)\<rparr>
      \<and> step p s (KeyDown ArrowUp) = s\<lparr>highlightedIdx := Num ((i - 1) mod int len)\<rparr>)"
proof (intro impI)
  assume a: "0 < len \<and> 0 \<le> i \<and> i < int len"
  have down: "arrowDownUpdater len (Num i) = Num ((i + 1) mod int len)"
    using a by (simp add: arrowDown_valid)
  have up: "arrowUpUpdater len (Num i) = Num ((i - 1) mod int len)"
    using a by (simp add: arrowUp_mod)
  have last: "arrowDownUpdater len (Num (int len - 1)) = Num 0"
    using a arrowDown_valid [of len "int len - 1"] by simp
  have first: "arrowUpUpdater len (Num 0) = Num (int len - 1)"
    by (simp add: arrowUpUpdater_def)
  have keys: "open_st s \<and> \<not> disabled p \<and> length (options p) = len \<and> highlightedIdx s = Num i \<longrightarrow>
        step p s (KeyDown ArrowDown) = s\<lparr>highlightedIdx := Num ((i + 1) mod int len)\<rparr>
      \<and> step p s (KeyDown ArrowUp) = s\<lparr>highlightedIdx := Num ((i - 1) mod int len)\<rparr>"
    using down up
    by (auto simp: step_def handleEvent_def handleKeyDown_def unchanged_def Let_def)
  from down up last first keys
  show "arrowDownUpdater len (Num i) = Num ((i + 1) mod int len)
   \<and> arrowUpUpdater len (Num i) = Num ((i - 1) mod int len)
   \<and> arrowDownUpdater len (Num (int len - 1)) = Num 0
   \<and> arrowUpUpdater len (Num 0) = Num (int len - 1)
   \<and> (open_st s \<and> \<not> disabled p \<and> length (options p) = len \<and> highlightedIdx s = Num i \<longrightarrow>
        step p s (KeyDown ArrowDown) = s\<lparr>highlightedIdx := Num ((i + 1) mod int len)\<rparr>
      \<and> step p s (KeyDown ArrowUp) = s\<lparr>highlightedIdx := Num ((i - 1) mod int len)\<rparr>)"
    by blast
qed

text \<open>On the three options: ArrowDown from the last index 2 gives 0, ArrowUp from 0 gives 2.\<close>

theorem highlight_wraps_witness:
  "open_st (openAt Nullish 2) \<and> \<not> disabled exampleProps \<and> length (options exampleProps) = 3
   \<and> highlightedIdx (openAt Nullish 2) = Num 2
   \<and> arrowDownUpdater 3 (Num 2) = Num 0
   \<and> step exampleProps (openAt Nullish 2) (KeyDown ArrowDown) = openAt Nullish 0
   \<and> arrowUpUpdater 3 (Num 0) = Num 2
   \<and> step exampleProps (openAt Nullish 0) (KeyDown ArrowUp) = openAt Nullish 2"
proof -
  have h: "open_st (openAt Nullish 2)" "open_st (openAt Nullish 0)" "\<not> disabled exampleProps"
      "length (options exampleProps) = 3"
      "highlightedIdx (openAt Nullish 2) = Num 2" "highlightedIdx (openAt Nullish 0) = Num 0"
    by (simp_all add: openAt_def exampleProps_def exampleOptions_def)
  have m: "((2::int) + 1) mod int 3 = 0" "((0::int) - 1) mod int 3 = 2" "int 3 - 1 = 2"
    by simp_all
  have u: "(openAt Nullish 2)\<lparr>highlightedIdx := Num 0\<rparr> = openAt Nullish 0"
      "(openAt Nullish 0)\<lparr>highlightedIdx := Num 2\<rparr> = openAt Nullish 2"
    by (simp_all add: openAt_def)
  show ?thesis
    using h
      highlight_wraps [where len = 3 and i = 2 and p = exampleProps and s = "openAt Nullish 2"]
      highlight_wraps [where len = 3 and i = 0 and p = exampleProps and s = "openAt Nullish 0"]
    by (simp add: m u)
qed

section \<open>Properties of selection\<close>

text \<open>
  C4, as amended. In single-select mode on an enabled widget, selecting an option closes
  the menu and calls the change listener, when one is passed, once with the option's raw
  value, within the same handler. In uncontrolled mode the current value becomes the
  option's value; in controlled mode it stays the value that the parent passes. Selecting
  the same option again leaves the state as it is: the value is unchanged and the menu
  is closed.
\<close>

theorem select_single:
  "\<not> multi p \<and> \<not> disabled p \<longrightarrow>
     \<not> open_st (new_state (handleSelect p s opt))
   \<and> calls (handleSelect p s opt) = (if onChange p then [Prim (item_value opt)] else [])
   \<and> (\<not> isControlled p \<longrightarrow>
        selectedValue p (new_state (handleSelect p s opt)) = Prim (item_value opt))
   \<and> (isControlled p \<longrightarrow>
        selectedValue p (new_state (handleSelect p s opt)) = value_prop p)
   \<and> new_state (handleSelect p (new_state (handleSelect p s opt)) opt)
       = new_state (handleSelect p s opt)
   \<and> (selectedValue p s = Prim (item_value opt) \<longrightarrow>
        new_state (handleSelect p s opt) = s\<lparr>open_st := False\<rparr>)"
  by (auto simp: handleSelect_def selectedValue_def)

text \<open>
  Selecting B (value 2) with A highlighted: uncontrolled, the value becomes 2; controlled
  by the value 1, the value stays 1; in both the menu closes and the listener gets 2.
\<close>

theorem select_single_witness:
  "\<not> multi exampleProps \<and> \<not> disabled exampleProps \<and> \<not> isControlled exampleProps
   \<and> new_state (handleSelect exampleProps (openAt Nullish 0) optionB)
       = \<lparr>internalValue = Prim (PNum 2), open_st = False, highlightedIdx = Num 0\<rparr>
   \<and> calls (handleSelect exampleProps (openAt Nullish 0) optionB) = [Prim (PNum 2)]
   \<and> selectedValue exampleProps (new_state (handleSelect exampleProps (openAt Nullish 0) optionB))
       = Prim (PNum 2)
   \<and> selectedValue exampleProps (openAt (Prim (PNum 2)) 1) = Prim (item_value optionB)
   \<and> new_state (handleSelect exampleProps (openAt (Prim (PNum 2)) 1) optionB)
       = (openAt (Prim (PNum 2)) 1)\<lparr>open_st := False\<rparr>
   \<and> \<not> multi controlledProps \<and> \<not> disabled controlledProps \<and> isControlled controlledProps
   \<and> selectedValue controlledProps
         (new_state (handleSelect controlledProps (openAt Nullish 0) optionB)) = Prim (PNum 1)
   \<and> calls (handleSelect controlledProps (openAt Nullish 0) optionB) = [Prim (PNum 2)]"
proof -
  have h: "\<not> multi exampleProps" "\<not> disabled exampleProps" "\<not> isControlled exampleProps"
      "onChange exampleProps" "item_value optionB = PNum 2"
      "selectedValue exampleProps (openAt (Prim (PNum 2)) 1) = Prim (item_value optionB)"
      "\<not> multi controlledProps" "\<not> disabled controlledProps" "isControlled controlledProps"
      "onChange controlledProps" "value_prop controlledProps = Prim (PNum 1)"
    by (simp_all add: exampleProps_def controlledProps_def isControlled_def optionB_def
        selectedValue_def openAt_def)
  have n: "new_state (handleSelect exampleProps (openAt Nullish 0) optionB)
       = \<lparr>internalValue = Prim (PNum 2), open_st = False, highlightedIdx = Num 0\<rparr>"
    by (simp add: handleSelect_def openAt_def optionB_def exampleProps_def isControlled_def)
  show ?thesis
    using h n
      select_single [where p = exampleProps and s = "openAt Nullish 0" and opt = optionB]
      select_single [where p = exampleProps and s = "openAt (Prim (PNum 2)) 1" and opt = optionB]
      select_single [where p = controlledProps and s = "openAt Nullish 0" and opt = optionB]
    by simp
qed

text \<open>
  The claim as stated fails in controlled mode: the parent passes the value 1, the user
  opens the menu and clicks B; the listener is told 2 and the menu closes, but the current
  value is still 1.
\<close>

theorem select_single_counterexample:
  "\<not> multi controlledProps \<and> \<not> disabled controlledProps
   \<and> item_value (options controlledProps ! 1) = PNum 2
   \<and> calls (handleEvent controlledProps (snd (run (mount controlledProps) [Ev TriggerClick]))
        (OptionClick 1)) = [Prim (PNum 2)]
   \<and> selectedValue controlledProps
        (snd (run (mount controlledProps) [Ev TriggerClick, Ev (OptionClick 1)])) = Prim (PNum 1)"
  by code_simp

lemma newVals_member: "(v \<in> set (newVals v old)) = (v \<notin> set old)"
  by (simp add: newVals_def)

lemma newVals_others: "set (newVals v old) - {v} = set old - {v}"
  by (auto simp: newVals_def)

lemma newVals_twice: "set (newVals v (newVals v old)) = set old"
  by (auto simp: newVals_def)

text \<open>
  C5, as amended. In multi-select mode on an enabled widget, selecting an option leaves
  the menu open and the highlight in place and calls the change listener, when one is
  passed, once with a new collection: the current one with the option's value added when
  it was absent, and with it removed when it was present. In uncontrolled mode this
  new collection becomes the current value, and selecting the same option twice gives
  back the original contents (as a set); in controlled mode the current value stays the
  one that the parent passes.
\<close>

theorem select_multi:
  "multi p \<and> \<not> disabled p \<longrightarrow>
     open_st (new_state (handleSelect p s opt)) = open_st s
   \<and> highlightedIdx (new_state (handleSelect p s opt)) = highlightedIdx s
   \<and> (\<exists>new. calls (handleSelect p s opt) = (if onChange p then [Arr new] else [])
          \<and> (item_value opt \<in> set new) = (item_value opt \<notin> set (oldVals (selectedValue p s)))
          \<and> set new - {item_value opt} = set (oldVals (selectedValue p s)) - {item_value opt}
          \<and> (\<not> isControlled p \<longrightarrow>
                selectedValue p (new_state (handleSelect p s opt)) = Arr new))
   \<and> (isControlled p \<longrightarrow>
        selectedValue p (new_state (handleSelect p s opt)) = value_prop p)
   \<and> (\<not> isControlled p \<longrightarrow>
        set (oldVals (selectedValue p
               (new_state (handleSelect p (new_state (handleSelect p s opt)) opt))))
          = set (oldVals (selectedValue p s)))"
proof (intro impI conjI)
  assume a: "multi p \<and> \<not> disabled p"
  show "open_st (new_state (handleSelect p s opt)) = open_st s"
    using a by (simp add: handleSelect_def Let_def)
  show "highlightedIdx (new_state (handleSelect p s opt)) = highlightedIdx s"
    by (simp add: handleSelect_idx)
  let ?new = "newVals (item_value opt) (oldVals (selectedValue p s))"
  have "calls (handleSelect p s opt) = (if onChange p then [Arr ?new] else [])"
    using a by (simp add: handleSelect_def Let_def)
  moreover have "\<not> isControlled p \<longrightarrow>
      selectedValue p (new_state (handleSelect p s opt)) = Arr ?new"
    using a by (simp add: handleSelect_def Let_def selectedValue_def)
  ultimately show "\<exists>new. calls (handleSelect p s opt) = (if onChange p then [Arr new] else [])
          \<and> (item_value opt \<in> set new) = (item_value opt \<notin> set (oldVals (selectedValue p s)))
          \<and> set new - {item_value opt} = set (oldVals (selectedValue p s)) - {item_value opt}
          \<and> (\<not> isControlled p \<longrightarrow>
                selectedValue p (new_state (handleSelect p s opt)) = Arr new)"
    using newVals_member [of "item_value opt" "oldVals (selectedValue p s)"]
      newVals_others [of "item_value opt" "oldVals (selectedValue p s)"]
    by blast
  show "selectedValue p (new_state (handleSelect p s opt)) = value_prop p" if "isControlled p"
    using that by (simp add: selectedValue_def)
  show "set (oldVals (selectedValue p
               (new_state (handleSelect p (new_state (handleSelect p s opt)) opt))))
          = set (oldVals (selectedValue p s))" if "\<not> isControlled p"
    using a that
    by (simp add: handleSelect_def Let_def selectedValue_def oldVals_def newVals_twice)
qed

text \<open>
  With the value 1 selected, selecting B gives the collection 1, 2 and selecting B again
  gives back 1; the menu stays open with its highlight.
\<close>

theorem select_multi_witness:
  "multi multiProps \<and> \<not> disabled multiProps \<and> \<not> isControlled multiProps
   \<and> open_st (new_state (handleSelect multiProps (openAt (Arr [PNum 1]) 1) optionB))
   \<and> highlightedIdx (new_state (handleSelect multiProps (openAt (Arr [PNum 1]) 1) optionB)) = Num 1
   \<and> calls (handleSelect multiProps (openAt (Arr [PNum 1]) 1) optionB) = [Arr [PNum 1, PNum 2]]
   \<and> selectedValue multiProps (new_state (handleSelect multiProps (openAt (Arr [PNum 1]) 1) optionB))
       = Arr [PNum 1, PNum 2]
   \<and> set (oldVals (selectedValue multiProps
        (new_state (handleSelect multiProps
           (new_state (handleSelect multiProps (openAt (Arr [PNum 1]) 1) optionB)) optionB))))
       = {PNum 1}
   \<and> multi controlledMultiProps \<and> \<not> disabled controlledMultiProps
   \<and> isControlled controlledMultiProps
   \<and> selectedValue controlledMultiProps
        (new_state (handleSelect controlledMultiProps (openAt (Arr []) 0) optionB)) = Arr [PNum 1]"
proof -
  have h: "multi multiProps" "\<not> disabled multiProps" "\<not> isControlled multiProps"
      "open_st (openAt (Arr [PNum 1]) 1)" "highlightedIdx (openAt (Arr [PNum 1]) 1) = Num 1"
      "set (oldVals (selectedValue multiProps (openAt (Arr [PNum 1]) 1))) = {PNum 1}"
      "multi controlledMultiProps" "\<not> disabled controlledMultiProps"
      "isControlled controlledMultiProps" "value_prop controlledMultiProps = Arr [PNum 1]"
    by (simp_all add: multiProps_def controlledMultiProps_def exampleProps_def isControlled_def
        openAt_def selectedValue_def oldVals_def)
  have c: "calls (handleSelect multiProps (openAt (Arr [PNum 1]) 1) optionB) = [Arr [PNum 1, PNum 2]]"
      "selectedValue multiProps (new_state (handleSelect multiProps (openAt (Arr [PNum 1]) 1) optionB))
       = Arr [PNum 1, PNum 2]"
    by (simp_all add: handleSelect_def multiProps_def exampleProps_def isControlled_def
        selectedValue_def openAt_def oldVals_def newVals_def optionB_def Let_def)
  show ?thesis
    using h c
      select_multi [where p = multiProps and s = "openAt (Arr [PNum 1]) 1" and opt = optionB]
      select_multi [where p = controlledMultiProps and s = "openAt (Arr []) 0" and opt = optionB]
    by simp
qed

text \<open>
  The claim as stated fails on a disabled widget and in controlled mode. The menu is
  open when the parent disables the widget: a click on B changes nothing and calls no
  listener. The parent passes the collection holding 1: after a click on B the listener
  is told 1, 2, but the current collection is still the one holding 1.
\<close>

theorem select_multi_counterexample:
  "multi disabledMultiProps \<and> onChange disabledMultiProps
   \<and> open_st (snd (run (mount multiProps) [Ev TriggerClick, Rerender disabledMultiProps True True]))
   \<and> calls (handleEvent disabledMultiProps
        (snd (run (mount multiProps) [Ev TriggerClick, Rerender disabledMultiProps True True]))
        (OptionClick 1)) = []
   \<and> selectedValue disabledMultiProps
        (snd (run (mount multiProps)
           [Ev TriggerClick, Rerender disabledMultiProps True True, Ev (OptionClick 1)])) = Arr []
   \<and> multi controlledMultiProps \<and> \<not> disabled controlledMultiProps
   \<and> calls (handleEvent controlledMultiProps
        (snd (run (mount controlledMultiProps) [Ev TriggerClick])) (OptionClick 1)) = [Arr [PNum 1, PNum 2]]
   \<and> selectedValue controlledMultiProps
        (snd (run (mount controlledMultiProps) [Ev TriggerClick, Ev (OptionClick 1)])) = Arr [PNum 1]"
  by code_simp

lemma handleSelect_controlled:
  "isControlled p \<Longrightarrow> internalValue (new_state (handleSelect p s opt)) = internalValue s"
  by (simp add: handleSelect_def Let_def unchanged_def)

text \<open>
  C6, as amended. In controlled mode selecting an option never changes the internal
  value: the value that the parent passes remains the current value, the one that
  \<open>isSelected\<close> tests. When the widget is enabled and a change listener is passed, the
  listener is still called once with the intended new value: the option's value in
  single-select mode, the passed collection with the option's value toggled in
  multi-select mode; of the state, single-select mode only closes the menu and
  multi-select mode changes nothing. On a disabled widget selecting is a no-op: the
  state is left as it is and no listener is called.
\<close>

theorem select_controlled:
  "isControlled p \<longrightarrow>
     internalValue (new_state (handleSelect p s opt)) = internalValue s
   \<and> selectedValue p (new_state (handleSelect p s opt)) = value_prop p
   \<and> (\<forall>x. isSelected p (new_state (handleSelect p s opt)) x = isSelected p s x)
   \<and> (\<not> disabled p \<and> onChange p \<and> \<not> multi p \<longrightarrow>
        calls (handleSelect p s opt) = [Prim (item_value opt)])
   \<and> (\<not> disabled p \<and> onChange p \<and> multi p \<longrightarrow>
        (\<exists>new. calls (handleSelect p s opt) = [Arr new]
           \<and> (item_value opt \<in> set new) = (item_value opt \<notin> set (oldVals (value_prop p)))
           \<and> set new - {item_value opt} = set (oldVals (value_prop p)) - {item_value opt}))
   \<and> (disabled p \<or> \<not> onChange p \<longrightarrow> calls (handleSelect p s opt) = [])
   \<and> (disabled p \<longrightarrow>
        handleSelect p s opt = \<lparr>new_state = s, calls = [], fresh_value = False\<rparr>)
   \<and> (\<not> disabled p \<and> \<not> multi p \<longrightarrow>
        new_state (handleSelect p s opt) = s\<lparr>open_st := False\<rparr>)
   \<and> (\<not> disabled p \<and> multi p \<longrightarrow> new_state (handleSelect p s opt) = s)"
proof (intro impI conjI allI)
  assume c: "isControlled p"
  show "internalValue (new_state (handleSelect p s opt)) = internalValue s"
    using c by (rule handleSelect_controlled)
  show "selectedValue p (new_state (handleSelect p s opt)) = value_prop p"
    using c by (simp add: selectedValue_def)
  show "isSelected p (new_state (handleSelect p s opt)) x = isSelected p s x" for x
    using c by (simp add: isSelected_def selectedValue_def)
  show "calls (handleSelect p s opt) = [Prim (item_value opt)]"
    if "\<not> disabled p \<and> onChange p \<and> \<not> multi p"
    using that by (simp add: handleSelect_def)
  show "\<exists>new. calls (handleSelect p s opt) = [Arr new]
           \<and> (item_value opt \<in> set new) = (item_value opt \<notin> set (oldVals (value_prop p)))
           \<and> set new - {item_value opt} = set (oldVals (value_prop p)) - {item_value opt}"
    if "\<not> disabled p \<and> onChange p \<and> multi p"
  proof -
    have "calls (handleSelect p s opt)
        = [Arr (newVals (item_value opt) (oldVals (value_prop p)))]"
      using that c by (simp add: handleSelect_def Let_def selectedValue_def)
    then show ?thesis
      using newVals_member [of "item_value opt" "oldVals (value_prop p)"]
        newVals_others [of "item_value opt" "oldVals (value_prop p)"]
      by blast
  qed
  show "calls (handleSelect p s opt) = []" if "disabled p \<or> \<not> onChange p"
    using that by (auto simp: handleSelect_def Let_def unchanged_def)
  show "handleSelect p s opt = \<lparr>new_state = s, calls = [], fresh_value = False\<rparr>"
    if "disabled p"
    using that by (simp add: handleSelect_def unchanged_def)
  show "new_state (handleSelect p s opt) = s\<lparr>open_st := False\<rparr>"
    if "\<not> disabled p \<and> \<not> multi p"
    using that c by (simp add: handleSelect_def)
  show "new_state (handleSelect p s opt) = s" if "\<not> disabled p \<and> multi p"
    using that c by (simp add: handleSelect_def Let_def)
qed

text \<open>
  Controlled by the value 1, selecting B: the internal value stays empty, the current
  value stays 1, A is still the selected option, the listener is told 2 and the menu
  closes. On the disabled widget the state stays as it is and no listener is called.
  Controlled by the collection holding 1, selecting B tells the listener a collection
  holding 1 and 2, and the state stays as it is.
\<close>

theorem select_controlled_witness:
  "isControlled controlledProps \<and> \<not> disabled controlledProps \<and> onChange controlledProps
   \<and> \<not> multi controlledProps
   \<and> internalValue (new_state (handleSelect controlledProps (openAt Nullish 0) optionB)) = Nullish
   \<and> selectedValue controlledProps
        (new_state (handleSelect controlledProps (openAt Nullish 0) optionB)) = Prim (PNum 1)
   \<and> isSelected controlledProps
        (new_state (handleSelect controlledProps (openAt Nullish 0) optionB)) (PNum 1)
   \<and> calls (handleSelect controlledProps (openAt Nullish 0) optionB) = [Prim (PNum 2)]
   \<and> new_state (handleSelect controlledProps (openAt Nullish 0) optionB)
       = (openAt Nullish 0)\<lparr>open_st := False\<rparr>
   \<and> isControlled disabledControlledProps \<and> disabled disabledControlledProps
   \<and> handleSelect disabledControlledProps (openAt Nullish 0) optionB
       = \<lparr>new_state = openAt Nullish 0, calls = [], fresh_value = False\<rparr>
   \<and> isControlled controlledMultiProps \<and> \<not> disabled controlledMultiProps
   \<and> onChange controlledMultiProps \<and> multi controlledMultiProps
   \<and> selectedValue controlledMultiProps
        (new_state (handleSelect controlledMultiProps (openAt (Arr []) 0) optionB))
       = Arr [PNum 1]
   \<and> new_state (handleSelect controlledMultiProps (openAt (Arr []) 0) optionB)
       = openAt (Arr []) 0
   \<and> (\<exists>new. calls (handleSelect controlledMultiProps (openAt (Arr []) 0) optionB) = [Arr new]
         \<and> set new = {PNum 1, PNum 2})"
proof -
  have h: "isControlled controlledProps" "\<not> disabled controlledProps" "onChange controlledProps"
      "\<not> multi controlledProps" "value_prop controlledProps = Prim (PNum 1)"
      "internalValue (openAt Nullish 0) = Nullish" "item_value optionB = PNum 2"
      "isSelected controlledProps (openAt Nullish 0) (PNum 1)"
      "isControlled disabledControlledProps" "disabled disabledControlledProps"
    by (simp_all add: controlledProps_def disabledControlledProps_def exampleProps_def
        isControlled_def openAt_def optionB_def isSelected_def selectedValue_def)
  have g: "isControlled controlledMultiProps" "\<not> disabled controlledMultiProps"
      "onChange controlledMultiProps" "multi controlledMultiProps"
      "value_prop controlledMultiProps = Arr [PNum 1]"
    by (simp_all add: controlledMultiProps_def exampleProps_def isControlled_def)
  obtain new where new: "calls (handleSelect controlledMultiProps (openAt (Arr []) 0) optionB)
        = [Arr new]"
      "(item_value optionB \<in> set new)
        = (item_value optionB \<notin> set (oldVals (value_prop controlledMultiProps)))"
      "set new - {item_value optionB}
        = set (oldVals (value_prop controlledMultiProps)) - {item_value optionB}"
    using g
      select_controlled [where p = controlledMultiProps and s = "openAt (Arr []) 0"
        and opt = optionB]
    by blast
  from new(2,3) g(5) h(7) have "set new = {PNum 1, PNum 2}"
    by (auto simp: oldVals_def)
  with new(1) have m: "\<exists>new. calls (handleSelect controlledMultiProps (openAt (Arr []) 0) optionB)
      = [Arr new] \<and> set new = {PNum 1, PNum 2}"
    by blast
  have k: "selectedValue controlledMultiProps
        (new_state (handleSelect controlledMultiProps (openAt (Arr []) 0) optionB))
       = Arr [PNum 1]"
      "new_state (handleSelect controlledMultiProps (openAt (Arr []) 0) optionB)
       = openAt (Arr []) 0"
    using g
      select_controlled [where p = controlledMultiProps and s = "openAt (Arr []) 0"
        and opt = optionB]
    by (simp_all add: selectedValue_def)
  show ?thesis
    using h g m k
      select_controlled [where p = controlledProps and s = "openAt Nullish 0" and opt = optionB]
      select_controlled [where p = disabledControlledProps and s = "openAt Nullish 0"
        and opt = optionB]
    by (simp add: selectedValue_def isSelected_def)
qed

text \<open>
  The claim as stated fails on a disabled widget: the parent passes the value 1 and a
  listener, the menu is open when the parent disables the widget, and a click on B calls
  no listener.
\<close>

theorem select_controlled_counterexample:
  "isControlled disabledControlledProps \<and> onChange disabledControlledProps
   \<and> open_st (snd (run (mount controlledProps)
        [Ev TriggerClick, Rerender disabledControlledProps True True]))
   \<and> calls (handleEvent disabledControlledProps
        (snd (run (mount controlledProps)
           [Ev TriggerClick, Rerender disabledControlledProps True True]))
        (OptionClick 1)) = []"
  by code_simp

section \<open>Properties of the value-sourcing mode\<close>

lemma dispatch_mode:
  "isControlled (fst (dispatch (p, s) i)) =
     (case i of Ev e \<Rightarrow> isControlled p | Rerender p' a b \<Rightarrow> value_prop p' \<noteq> Nullish)"
  by (cases i) (simp_all add: isControlled_def)

lemma run_mode:
  "list_all (keepsMode (isControlled (fst c))) ins \<Longrightarrow>
   isControlled (fst (run c ins)) = isControlled (fst c)"
proof (induction ins arbitrary: c)
  case Nil
  then show ?case by (simp add: run_def)
next
  case (Cons i ins)
  have m: "isControlled (fst (dispatch c i)) = isControlled (fst c)"
    using Cons.prems by (cases c; cases i) simp_all
  with Cons.prems have "list_all (keepsMode (isControlled (fst (dispatch c i)))) ins" by simp
  from Cons.IH [OF this] m show ?case by (simp add: run_def)
qed

lemma dispatch_internal:
  "internalValue (snd (dispatch (p, s) (Rerender p' a b))) = internalValue s"
  by (simp add: runEffect_def)

text \<open>
  C7, as amended. At every render exactly one of controlled and uncontrolled value
  sourcing is in force, and the render decides it from its own props: controlled exactly
  when the value passed is not absent. No event changes the mode, and the mode of the
  mount lasts as long as every later render supplies a value exactly when the mount did.
  The internal value is kept across every render.
\<close>

theorem mode_per_render:
  "isControlled (fst (dispatch (p, s) i)) =
     (case i of Ev e \<Rightarrow> isControlled p | Rerender p' a b \<Rightarrow> value_prop p' \<noteq> Nullish)
   \<and> isControlled (fst (mount p)) = (value_prop p \<noteq> Nullish)
   \<and> (list_all (keepsMode (isControlled p)) ins \<longrightarrow>
        isControlled (fst (run (mount p) ins)) = (value_prop p \<noteq> Nullish))
   \<and> internalValue (snd (dispatch (p, s) (Rerender p' a b))) = internalValue s"
  using dispatch_mode [of p s i] run_mode [of "mount p" ins] dispatch_internal [of p s p' a b]
  by (simp add: mount_def isControlled_def)

text \<open>
  Mounted without a value, opened, rendered again as a multi-select without a value, an
  option clicked: the widget is uncontrolled throughout.
\<close>

theorem mode_per_render_witness:
  "list_all (keepsMode (isControlled exampleProps))
     [Ev TriggerClick, Rerender multiProps True True, Ev (OptionClick 1)]
   \<and> value_prop exampleProps = Nullish
   \<and> \<not> isControlled (fst (run (mount exampleProps)
        [Ev TriggerClick, Rerender multiProps True True, Ev (OptionClick 1)]))"
proof -
  have h: "list_all (keepsMode (isControlled exampleProps))
     [Ev TriggerClick, Rerender multiProps True True, Ev (OptionClick 1)]"
      "value_prop exampleProps = Nullish"
    by (simp_all add: isControlled_def exampleProps_def multiProps_def)
  show ?thesis
    using h
      mode_per_render [where p = exampleProps
        and ins = "[Ev TriggerClick, Rerender multiProps True True, Ev (OptionClick 1)]"]
    by simp
qed

text \<open>
  The claim as stated fails: a widget mounted without a value is uncontrolled, and the
  first render in which the parent passes a value makes it controlled.
\<close>

theorem mode_per_render_counterexample:
  "\<not> isControlled (fst (mount exampleProps))
   \<and> isControlled (fst (run (mount exampleProps)
        [Ev TriggerClick, Rerender controlledProps True True]))
   \<and> selectedValue controlledProps (snd (run (mount exampleProps)
        [Ev TriggerClick, Ev (OptionClick 1), Rerender controlledProps True True])) = Prim (PNum 1)
   \<and> internalValue (snd (run (mount exampleProps)
        [Ev TriggerClick, Ev (OptionClick 1), Rerender controlledProps True True])) = Prim (PNum 2)"
  by code_simp

section \<open>The highlight effect while the menu is open\<close>






end
